theory Spec2Isabelle
  imports Main "HOL-Library.Word"
begin

section \<open>The job record (api/internal/queue/redis_queue.go)\<close>

text \<open>
  \<^verbatim>\<open>type JobStatus string\<close>: a status is any string; the four constants are the
  values the code compares against.
\<close>

type_synonym JobStatus = string

abbreviation StatusPending :: JobStatus where "StatusPending \<equiv> ''pending''"
abbreviation StatusProcessing :: JobStatus where "StatusProcessing \<equiv> ''processing''"
abbreviation StatusCompleted :: JobStatus where "StatusCompleted \<equiv> ''completed''"
abbreviation StatusFailed :: JobStatus where "StatusFailed \<equiv> ''failed''"

text \<open>
  \<^verbatim>\<open>time.Time\<close> is an instant, counted in nanoseconds; \<^verbatim>\<open>time.Duration\<close> is a
  number of nanoseconds. One clock serves the API process and the store.
\<close>

type_synonym time = nat

abbreviation Hour :: time where "Hour \<equiv> 3600000000000"

record Job =
  ID :: string
  Status :: JobStatus
  InputPath :: string
  OutputPath :: string
  Error :: string
  CreatedAt :: time
  UpdatedAt :: time

section \<open>The store: the Redis commands the queue calls\<close>

text \<open>
  Errors of the store client and of the JSON codec, as values. \<open>RedisNil\<close> is
  \<^verbatim>\<open>redis.Nil\<close>, the reply for a key that does not exist.
\<close>

datatype err = RedisNil | ConnErr | DecodeErr | RandErr | SaveErr | NotExist

text \<open>
  Strings are byte strings. \<^verbatim>\<open>encoding/json\<close> writes a string as UTF-8: it reads the
  string rune by rune (\<^verbatim>\<open>utf8.DecodeRuneInString\<close>) and writes U+FFFD in place of every
  byte at which no valid encoding starts. \<open>rune_size\<close> is the length of the encoding
  at the head of a string, 0 when there is none.
\<close>

definition byte :: "char \<Rightarrow> nat" where
  "byte c = of_char c"

definition between :: "nat \<Rightarrow> nat \<Rightarrow> char \<Rightarrow> bool" where
  "between lo hi c = (lo \<le> byte c \<and> byte c \<le> hi)"

fun rune_size :: "string \<Rightarrow> nat" where
  "rune_size [] = 0"
| "rune_size (c0 # cs) =
     (if byte c0 < 0x80 then 1
      else if between 0xC2 0xDF c0 then
        (case cs of c1 # _ \<Rightarrow> if between 0x80 0xBF c1 then 2 else 0 | _ \<Rightarrow> 0)
      else if between 0xE0 0xEF c0 then
        (case cs of
           c1 # c2 # _ \<Rightarrow>
             if between (if byte c0 = 0xE0 then 0xA0 else 0x80)
                        (if byte c0 = 0xED then 0x9F else 0xBF) c1 \<and>
                between 0x80 0xBF c2
             then 3 else 0
         | _ \<Rightarrow> 0)
      else if between 0xF0 0xF4 c0 then
        (case cs of
           c1 # c2 # c3 # _ \<Rightarrow>
             if between (if byte c0 = 0xF0 then 0x90 else 0x80)
                        (if byte c0 = 0xF4 then 0x8F else 0xBF) c1 \<and>
                between 0x80 0xBF c2 \<and> between 0x80 0xBF c3
             then 4 else 0
         | _ \<Rightarrow> 0)
      else 0)"

text \<open>The three bytes of U+FFFD.\<close>

definition RuneError_utf8 :: string where
  "RuneError_utf8 = [char_of (0xEF :: nat), char_of (0xBF :: nat), char_of (0xBD :: nat)]"

text \<open>
  \<open>utf8_scan k s\<close> copies the \<open>k\<close> bytes that remain of the rune it is in, and then
  goes on rune by rune.
\<close>

fun utf8_scan :: "nat \<Rightarrow> string \<Rightarrow> string" where
  "utf8_scan k [] = []"
| "utf8_scan k (c # cs) =
     (if 0 < k then c # utf8_scan (k - 1) cs
      else (case rune_size (c # cs) of
              0 \<Rightarrow> RuneError_utf8 @ utf8_scan 0 cs
            | Suc n \<Rightarrow> c # utf8_scan n cs))"

definition utf8_coerce :: "string \<Rightarrow> string" where
  "utf8_coerce s = utf8_scan 0 s"

text \<open>The job that the JSON text written for a job decodes to.\<close>

definition json_strings :: "Job \<Rightarrow> Job" where
  "json_strings job =
     job\<lparr>ID := utf8_coerce (ID job), Status := utf8_coerce (Status job),
         InputPath := utf8_coerce (InputPath job), OutputPath := utf8_coerce (OutputPath job),
         Error := utf8_coerce (Error job)\<rparr>"

text \<open>
  The bytes held under a string key. \<open>Marshal job\<close> is the JSON text that decodes to
  \<open>job\<close>; \<open>Garbage s\<close> is any text that does not decode to a job.
  \<^verbatim>\<open>json.Marshal(job)\<close> writes the text that decodes to \<open>json_strings job\<close>. Instants
  are taken within the years a JSON time can hold, where writing one does not fail.
\<close>

datatype bytes = Marshal Job | Garbage string

definition json_Marshal :: "Job \<Rightarrow> err + bytes" where
  "json_Marshal job = Inr (Marshal (json_strings job))"

fun json_Unmarshal :: "bytes \<Rightarrow> err + Job" where
  "json_Unmarshal (Marshal job) = Inr job"
| "json_Unmarshal (Garbage s) = Inl DecodeErr"

text \<open>
  The state of the store: string keys with the instant at which they expire, and list
  keys. The two key families of the code never meet (\<open>job:...\<close> against
  \<open>pending_jobs\<close>), so each family has its own map. A list is kept in the order Redis
  reports it: \<^verbatim>\<open>LPUSH\<close> adds at the front, \<^verbatim>\<open>RPOP\<close> takes from the back.
\<close>

record redis =
  strs :: "string \<rightharpoonup> (bytes \<times> time)"
  lsts :: "string \<rightharpoonup> string list"

text \<open>Whether one round trip to the store goes through.\<close>

datatype link = Up | Down

definition redis_empty :: redis where
  "redis_empty = \<lparr>strs = Map.empty, lsts = Map.empty\<rparr>"

text \<open>\<^verbatim>\<open>SET key value EX ttl\<close>: overwrite, and start a new time to live.\<close>

definition redis_Set :: "link \<Rightarrow> time \<Rightarrow> string \<Rightarrow> bytes \<Rightarrow> time \<Rightarrow> redis \<Rightarrow> err option \<times> redis" where
  "redis_Set l now key v ttl st =
     (if l = Down then (Some ConnErr, st)
      else (None, st\<lparr>strs := (strs st)(key \<mapsto> (v, now + ttl))\<rparr>))"

text \<open>\<^verbatim>\<open>GET key\<close>: a key that was never set, or whose time to live has run out, is nil.\<close>

definition redis_Get :: "link \<Rightarrow> time \<Rightarrow> string \<Rightarrow> redis \<Rightarrow> (err + bytes) \<times> redis" where
  "redis_Get l now key st =
     (if l = Down then (Inl ConnErr, st)
      else (case strs st key of
              None \<Rightarrow> (Inl RedisNil, st)
            | Some (v, expiry) \<Rightarrow>
                if expiry \<le> now then (Inl RedisNil, st) else (Inr v, st)))"

definition list_at :: "redis \<Rightarrow> string \<Rightarrow> string list" where
  "list_at st key = (case lsts st key of None \<Rightarrow> [] | Some xs \<Rightarrow> xs)"

text \<open>\<^verbatim>\<open>LPUSH key x\<close>: add at the front, creating the list when the key is absent.\<close>

definition redis_LPush :: "link \<Rightarrow> string \<Rightarrow> string \<Rightarrow> redis \<Rightarrow> err option \<times> redis" where
  "redis_LPush l key x st =
     (if l = Down then (Some ConnErr, st)
      else (None, st\<lparr>lsts := (lsts st)(key \<mapsto> x # list_at st key)\<rparr>))"

text \<open>
  \<^verbatim>\<open>RPOP key\<close>: take the last element; nil when there is none. A list that becomes
  empty is deleted.
\<close>

definition redis_RPop :: "link \<Rightarrow> string \<Rightarrow> redis \<Rightarrow> (err + string) \<times> redis" where
  "redis_RPop l key st =
     (if l = Down then (Inl ConnErr, st)
      else if list_at st key = [] then (Inl RedisNil, st)
      else (Inr (last (list_at st key)),
            st\<lparr>lsts := (if butlast (list_at st key) = [] then (lsts st)(key := None)
                          else (lsts st)(key \<mapsto> butlast (list_at st key)))\<rparr>))"

section \<open>RedisQueue\<close>

definition jobKey :: "string \<Rightarrow> string" where
  "jobKey jobID = ''job:'' @ jobID"

definition queueKey :: string where
  "queueKey = ''pending_jobs''"

abbreviation TTL :: time where "TTL \<equiv> 24 * Hour"

text \<open>
  \<^verbatim>\<open>AddJob\<close> writes through the pointer it is given, so the job as the caller sees it
  afterwards is part of the result: (error, job, store).
\<close>

definition AddJob :: "link \<Rightarrow> link \<Rightarrow> time \<Rightarrow> Job \<Rightarrow> redis \<Rightarrow> err option \<times> Job \<times> redis" where
  "AddJob l1 l2 now job0 st =
     (let job1 = job0\<lparr>CreatedAt := now\<rparr>;
          job2 = job1\<lparr>UpdatedAt := CreatedAt job1\<rparr>;
          job = (if Status job2 = '''' then job2\<lparr>Status := StatusPending\<rparr> else job2)
      in case json_Marshal job of
           Inl e \<Rightarrow> (Some e, job, st)
         | Inr jobJSON \<Rightarrow>
            (case redis_Set l1 now (jobKey (ID job)) jobJSON TTL st of
               (Some e, st1) \<Rightarrow> (Some e, job, st1)
             | (None, st1) \<Rightarrow>
                 if Status job = StatusPending then
                   (case redis_LPush l2 queueKey (ID job) st1 of
                      (Some e, st2) \<Rightarrow> (Some e, job, st2)
                    | (None, st2) \<Rightarrow> (None, job, st2))
                 else (None, job, st1)))"

text \<open>
  A Go result \<^verbatim>\<open>(*Job, error)\<close>: \<open>Inl e\<close> is \<^verbatim>\<open>(nil, e)\<close>, \<open>Inr None\<close> is
  \<^verbatim>\<open>(nil, nil)\<close>, \<open>Inr (Some job)\<close> is \<^verbatim>\<open>(&job, nil)\<close>.
\<close>

definition GetJob :: "link \<Rightarrow> time \<Rightarrow> string \<Rightarrow> redis \<Rightarrow> (err + Job option) \<times> redis" where
  "GetJob l now jobID st =
     (case redis_Get l now (jobKey jobID) st of
        (Inl e, st1) \<Rightarrow> if e = RedisNil then (Inr None, st1) else (Inl e, st1)
      | (Inr jobJSON, st1) \<Rightarrow>
          (case json_Unmarshal jobJSON of
             Inl e \<Rightarrow> (Inl e, st1)
           | Inr job \<Rightarrow> (Inr (Some job), st1)))"

definition UpdateJob :: "link \<Rightarrow> time \<Rightarrow> Job \<Rightarrow> redis \<Rightarrow> err option \<times> Job \<times> redis" where
  "UpdateJob l now job0 st =
     (let job = job0\<lparr>UpdatedAt := now\<rparr>
      in case json_Marshal job of
           Inl e \<Rightarrow> (Some e, job, st)
         | Inr jobJSON \<Rightarrow>
            (case redis_Set l now (jobKey (ID job)) jobJSON TTL st of
               (e, st1) \<Rightarrow> (e, job, st1)))"

definition PopPendingJob :: "link \<Rightarrow> link \<Rightarrow> time \<Rightarrow> redis \<Rightarrow> (err + Job option) \<times> redis" where
  "PopPendingJob l1 l2 now st =
     (case redis_RPop l1 queueKey st of
        (Inl e, st1) \<Rightarrow> if e = RedisNil then (Inr None, st1) else (Inl e, st1)
      | (Inr jobID, st1) \<Rightarrow> GetJob l2 now jobID st1)"

text \<open>
  The pending queue as the store holds it (newest first), and in the order of arrival
  (oldest first).
\<close>

definition pending :: "redis \<Rightarrow> string list" where
  "pending st = list_at st queueKey"

definition fifo :: "redis \<Rightarrow> string list" where
  "fifo st = rev (pending st)"

section \<open>The HTTP handlers (api/internal/handlers/handlers.go)\<close>

text \<open>
  A response is a JSON object with a status code (\<^verbatim>\<open>c.JSON(code, gin.H{...})\<close>), or
  one of the answers of a file server: the content of a file (status 200), a plain text
  error, or a redirect. A field of \<^verbatim>\<open>gin.H\<close> is a string; \<open>RFC3339 t\<close> stands for
  the string \<^verbatim>\<open>t.Format(time.RFC3339)\<close>.
\<close>

datatype hval = S string | RFC3339 time

datatype response =
    JSON nat "string \<rightharpoonup> hval"
  | FileBody string
  | Plain nat string
  | Redirect nat string

fun code :: "response \<Rightarrow> nat" where
  "code (JSON c body) = c"
| "code (FileBody filepath) = 200"
| "code (Plain c msg) = c"
| "code (Redirect c location) = c"

abbreviation StatusOK :: nat where "StatusOK \<equiv> 200"
abbreviation StatusAccepted :: nat where "StatusAccepted \<equiv> 202"
abbreviation StatusBadRequest :: nat where "StatusBadRequest \<equiv> 400"
abbreviation StatusNotFound :: nat where "StatusNotFound \<equiv> 404"
abbreviation StatusInternalServerError :: nat where "StatusInternalServerError \<equiv> 500"

record Handler =
  uploadDir :: string
  resultsDir :: string

text \<open>
  The file system is the set of paths at which a file exists. \<^verbatim>\<open>os.Stat\<close> fails on
  a path that is not there.
\<close>

definition os_Stat :: "string set \<Rightarrow> string \<Rightarrow> err option" where
  "os_Stat fs name = (if name \<in> fs then None else Some NotExist)"

definition SaveUploadedFile :: "bool \<Rightarrow> string \<Rightarrow> string set \<Rightarrow> err option \<times> string set" where
  "SaveUploadedFile ok dst fs = (if ok then (None, insert dst fs) else (Some SaveErr, fs))"

text \<open>\<^verbatim>\<open>filepath.Ext\<close>: the suffix from the last dot of the last path element.\<close>

fun ext_scan :: "string \<Rightarrow> string \<Rightarrow> string" where
  "ext_scan [] acc = []"
| "ext_scan (c # cs) acc =
     (if c = CHR ''/'' then []
      else if c = CHR ''.'' then c # acc
      else ext_scan cs (c # acc))"

definition filepath_Ext :: "string \<Rightarrow> string" where
  "filepath_Ext path = ext_scan (rev path) []"

text \<open>
  \<^verbatim>\<open>filepath.Clean\<close>, as its loop is written: \<open>p\<close> is the part of the path still to
  read, \<open>out\<close> the bytes written so far, and \<open>dotdot\<close> the length of the prefix of
  \<open>out\<close> that a \<open>..\<close> element must not remove (the leading slash, or leading \<open>..\<close>
  elements).
\<close>

definition at_elem_end :: "string \<Rightarrow> bool" where
  "at_elem_end p = (case p of [] \<Rightarrow> True | c # _ \<Rightarrow> c = CHR ''/'')"

fun backtrack :: "string \<Rightarrow> nat \<Rightarrow> nat \<Rightarrow> nat" where
  "backtrack out dotdot w =
     (if dotdot < w \<and> out ! w \<noteq> CHR ''/'' then backtrack out dotdot (w - 1) else w)"

declare backtrack.simps [simp del]

function clean_loop :: "bool \<Rightarrow> string \<Rightarrow> string \<Rightarrow> nat \<Rightarrow> string" where
  "clean_loop rooted [] out dotdot = out"
| "clean_loop rooted (c # rest) out dotdot =
     (if c = CHR ''/'' then clean_loop rooted rest out dotdot
      else if c = CHR ''.'' \<and> at_elem_end rest then clean_loop rooted rest out dotdot
      else if c = CHR ''.'' \<and> rest \<noteq> [] \<and> hd rest = CHR ''.'' \<and> at_elem_end (tl rest) then
        (if dotdot < length out then
           clean_loop rooted (tl rest) (take (backtrack out dotdot (length out - 1)) out) dotdot
         else if \<not> rooted then
           (let out1 = (if 0 < length out then out @ ''/'' else out) @ ''..''
            in clean_loop rooted (tl rest) out1 (length out1))
         else clean_loop rooted (tl rest) out dotdot)
      else
        (let out1 = (if rooted \<and> length out \<noteq> 1 \<or> \<not> rooted \<and> length out \<noteq> 0
                     then out @ ''/'' else out)
         in clean_loop rooted (dropWhile (\<lambda>x. x \<noteq> CHR ''/'') rest)
              (out1 @ c # takeWhile (\<lambda>x. x \<noteq> CHR ''/'') rest) dotdot))"
  by pat_completeness auto
termination
  by (relation "measure (\<lambda>(rooted, p, out, dotdot). length p)")
     (simp_all add: le_imp_less_Suc length_dropWhile_le)

definition filepath_Clean :: "string \<Rightarrow> string" where
  "filepath_Clean path =
     (if path = '''' then ''.''
      else let rooted = (hd path = CHR ''/'');
               out = (if rooted then clean_loop rooted (tl path) ''/'' 1
                      else clean_loop rooted path '''' 0)
           in if out = '''' then ''.'' else out)"

text \<open>
  \<^verbatim>\<open>filepath.Join\<close> of two elements: the elements from the first non-empty one on,
  joined by a slash and cleaned.
\<close>

definition filepath_Join :: "string \<Rightarrow> string \<Rightarrow> string" where
  "filepath_Join a b =
     (if a \<noteq> '''' then filepath_Clean (a @ ''/'' @ b)
      else if b \<noteq> '''' then filepath_Clean b
      else '''')"

text \<open>
  \<^verbatim>\<open>generateID\<close>: eight bytes of \<^verbatim>\<open>crypto/rand\<close>, in lower-case hexadecimal. The
  argument is what \<^verbatim>\<open>rand.Read\<close> gave: an error, or the bytes.
\<close>

definition hextable :: string where
  "hextable = ''0123456789abcdef''"

fun hex_EncodeToString :: "8 word list \<Rightarrow> string" where
  "hex_EncodeToString [] = []"
| "hex_EncodeToString (v # vs) =
     hextable ! unat (drop_bit 4 v) # hextable ! unat (and v 0x0f) # hex_EncodeToString vs"

definition generateID :: "err + 8 word list \<Rightarrow> err + string" where
  "generateID rnd = (case rnd of Inl e \<Rightarrow> Inl e | Inr b \<Rightarrow> Inr (hex_EncodeToString b))"

text \<open>
  \<^verbatim>\<open>ProcessImage\<close>. \<open>upload\<close> is the name of the uploaded file (\<open>None\<close> when the
  form has no \<open>image\<close>), \<open>rnd\<close> the outcome of \<^verbatim>\<open>rand.Read\<close>, \<open>save_ok\<close>
  whether the file can be written. The result is the response, the file system and the
  store.
\<close>

definition ProcessImage ::
  "Handler \<Rightarrow> string option \<Rightarrow> err + 8 word list \<Rightarrow> bool \<Rightarrow> link \<Rightarrow> link \<Rightarrow> time \<Rightarrow>
   string set \<Rightarrow> redis \<Rightarrow> response \<times> string set \<times> redis" where
  "ProcessImage h upload rnd save_ok l1 l2 now fs st =
     (case upload of
        None \<Rightarrow> (JSON StatusBadRequest [''error'' \<mapsto> S ''No image provided''], fs, st)
      | Some file_Filename \<Rightarrow>
         (case generateID rnd of
            Inl e \<Rightarrow>
              (JSON StatusInternalServerError [''error'' \<mapsto> S ''Failed to generate job ID''], fs, st)
          | Inr jobID \<Rightarrow>
             (let filename = jobID @ filepath_Ext file_Filename;
                  uploadPath = filepath_Join (uploadDir h) filename
              in case SaveUploadedFile save_ok uploadPath fs of
                   (Some e, fs1) \<Rightarrow>
                     (JSON StatusInternalServerError
                        [''error'' \<mapsto> S ''Failed to save the uploaded file''], fs1, st)
                 | (None, fs1) \<Rightarrow>
                    (let job = \<lparr>ID = jobID, Status = StatusPending, InputPath = uploadPath,
                                OutputPath = [], Error = [], CreatedAt = 0, UpdatedAt = 0\<rparr>
                     in case AddJob l1 l2 now job st of
                          (Some e, job1, st1) \<Rightarrow>
                            (JSON StatusInternalServerError
                               [''error'' \<mapsto> S ''Failed to add job to queue''], fs1, st1)
                        | (None, job1, st1) \<Rightarrow>
                            (JSON StatusAccepted
                               [''job_id'' \<mapsto> S jobID, ''status'' \<mapsto> S (Status job1)],
                             fs1, st1)))))"

text \<open>\<^verbatim>\<open>GetResult\<close>. \<open>jobID\<close> is \<^verbatim>\<open>c.Query("id")\<close>, empty when the parameter is absent.\<close>

definition GetResult :: "link \<Rightarrow> time \<Rightarrow> string set \<Rightarrow> string \<Rightarrow> redis \<Rightarrow> response \<times> redis" where
  "GetResult l now fs jobID st =
     (if jobID = [] then (JSON StatusBadRequest [''error'' \<mapsto> S ''Job ID is required''], st)
      else case GetJob l now jobID st of
        (Inl e, st1) \<Rightarrow>
          (JSON StatusInternalServerError [''error'' \<mapsto> S ''Failed to retrieve job''], st1)
      | (Inr None, st1) \<Rightarrow> (JSON StatusNotFound [''error'' \<mapsto> S ''Job not found''], st1)
      | (Inr (Some job), st1) \<Rightarrow>
          (let result = [''job_id'' \<mapsto> S (ID job), ''status'' \<mapsto> S (Status job)];
               result1 =
                 (if Status job = StatusCompleted then
                    (if os_Stat fs (OutputPath job) = None then
                       result(''result_url'' \<mapsto> S (''/api/download/'' @ ID job),
                              ''completed_at'' \<mapsto> RFC3339 (UpdatedAt job))
                     else result(''error'' \<mapsto> S ''Result file not found''))
                  else if Status job = StatusFailed then result(''error'' \<mapsto> S (Error job))
                  else if Status job = StatusProcessing then
                    result(''started_at'' \<mapsto> RFC3339 (UpdatedAt job))
                  else result)
           in (JSON StatusOK result1, st1)))"

text \<open>
  \<^verbatim>\<open>DownloadResult\<close>. \<open>jobID\<close> is \<^verbatim>\<open>c.Param("id")\<close>. \<^verbatim>\<open>c.File\<close> hands a path to
  the file server of \<^verbatim>\<open>net/http\<close>; what the file server answers for a path is the
  parameter \<open>c_File\<close>.
\<close>

definition DownloadResult ::
  "(string \<Rightarrow> response) \<Rightarrow> link \<Rightarrow> time \<Rightarrow> string \<Rightarrow> redis \<Rightarrow> response \<times> redis" where
  "DownloadResult c_File l now jobID st =
     (if jobID = [] then (JSON StatusBadRequest [''error'' \<mapsto> S ''Job ID is required''], st)
      else case GetJob l now jobID st of
        (Inl e, st1) \<Rightarrow>
          (JSON StatusInternalServerError [''error'' \<mapsto> S ''Failed to retrieve job''], st1)
      | (Inr None, st1) \<Rightarrow> (JSON StatusNotFound [''error'' \<mapsto> S ''Result not available''], st1)
      | (Inr (Some job), st1) \<Rightarrow>
          (if Status job \<noteq> StatusCompleted \<or> OutputPath job = []
           then (JSON StatusNotFound [''error'' \<mapsto> S ''Result not available''], st1)
           else (c_File (OutputPath job), st1)))"

section \<open>Runs of the queue and sample values\<close>

text \<open>
  A job ID is unknown to the store at an instant when no record was ever written under
  it, or the record's time to live has run out.
\<close>

definition unknown :: "time \<Rightarrow> redis \<Rightarrow> string \<Rightarrow> bool" where
  "unknown now st jobID =
     (case strs st (jobKey jobID) of None \<Rightarrow> True | Some (v, expiry) \<Rightarrow> expiry \<le> now)"

text \<open>A series of successful \<^verbatim>\<open>UpdateJob\<close> calls, each at its own instant.\<close>

fun run_updates :: "(time \<times> Job) list \<Rightarrow> redis \<Rightarrow> redis" where
  "run_updates [] st = st"
| "run_updates ((t, job) # us) st = run_updates us (snd (snd (UpdateJob Up t job st)))"

text \<open>
  The instant of the last write to a job ID and the job that write stored: the creation
  at \<open>T\<close> of \<open>job\<close>, or the latest of the updates \<open>us\<close> that carries this ID.
\<close>

fun last_write :: "string \<Rightarrow> time \<Rightarrow> (time \<times> Job) list \<Rightarrow> time" where
  "last_write jobID T [] = T"
| "last_write jobID T ((t, j) # us) = last_write jobID (if ID j = jobID then t else T) us"

fun last_job :: "string \<Rightarrow> Job \<Rightarrow> (time \<times> Job) list \<Rightarrow> Job" where
  "last_job jobID job [] = job"
| "last_job jobID job ((t, j) # us) =
     last_job jobID (if ID j = jobID then j\<lparr>UpdatedAt := t\<rparr> else job) us"

text \<open>A job as \<^verbatim>\<open>ProcessImage\<close> builds it, and the store after it was added at instant 0.\<close>

definition job_a :: Job where
  "job_a = \<lparr>ID = ''a1b2c3d4e5f60718'', Status = StatusPending,
            InputPath = ''uploads/a1b2c3d4e5f60718.png'', OutputPath = '''', Error = '''',
            CreatedAt = 0, UpdatedAt = 0\<rparr>"

definition store_a :: redis where
  "store_a = \<lparr>strs = [jobKey ''a1b2c3d4e5f60718'' \<mapsto> (Marshal job_a, TTL)],
              lsts = [queueKey \<mapsto> [''a1b2c3d4e5f60718'']]\<rparr>"

text \<open>
  The same job after a worker took it and wrote an outcome at instant 9: failed with an
  error text, or completed with an output path.
\<close>

definition job_failed :: Job where
  "job_failed = job_a\<lparr>Status := StatusFailed, Error := ''decode error'', UpdatedAt := 9\<rparr>"

definition store_failed :: redis where
  "store_failed = \<lparr>strs = [jobKey ''a1b2c3d4e5f60718'' \<mapsto> (Marshal job_failed, 9 + TTL)],
                   lsts = Map.empty\<rparr>"

definition job_done :: Job where
  "job_done = job_a\<lparr>Status := StatusCompleted,
                 OutputPath := ''results/a1b2c3d4e5f60718.png'', UpdatedAt := 9\<rparr>"

definition store_done :: redis where
  "store_done = \<lparr>strs = [jobKey ''a1b2c3d4e5f60718'' \<mapsto> (Marshal job_done, 9 + TTL)],
                 lsts = Map.empty\<rparr>"

text \<open>A handler with the default directories, and eight random bytes.\<close>

definition handler_a :: Handler where
  "handler_a = \<lparr>uploadDir = ''uploads'', resultsDir = ''results''\<rparr>"

definition rnd_a :: "8 word list" where
  "rnd_a = [0xa1, 0xb2, 0xc3, 0xd4, 0xe5, 0xf6, 0x07, 0x18]"







text \<open>
  A file server over a set of files and a set of directories: it sends a file, redirects
  at a directory, and answers 404 for a path at which there is nothing.
\<close>

definition file_server :: "string set \<Rightarrow> string set \<Rightarrow> string \<Rightarrow> response" where
  "file_server files dirs filepath =
     (if filepath \<in> files then FileBody filepath
      else if filepath \<in> dirs then Redirect 301 (filepath @ ''/'')
      else Plain StatusNotFound (''404 page not found'' @ [CHR 0x0A]))"

text \<open>
  What is taken of the file server behind \<^verbatim>\<open>c.File\<close>, over the file system \<open>fs\<close>:
  it sends the file at the path it is given and no other, only when there is a file at
  that path, and it answers 404 for a path at which there is none.
\<close>

definition serves_from :: "string set \<Rightarrow> (string \<Rightarrow> response) \<Rightarrow> bool" where
  "serves_from fs c_File \<longleftrightarrow>
     (\<forall>p q. c_File p = FileBody q \<longrightarrow> q = p \<and> p \<in> fs) \<and>
     (\<forall>p. p \<notin> fs \<longrightarrow> code (c_File p) = StatusNotFound)"

section \<open>Runs of the queue operations\<close>








section \<open>Workers taking jobs concurrently\<close>














section \<open>Basic facts\<close>

lemma jobKey_inj: "jobKey a = jobKey b \<longleftrightarrow> a = b"
  by (simp add: jobKey_def)

lemma jobKey_not_queueKey: "jobKey jobID \<noteq> queueKey"
  by (simp add: jobKey_def queueKey_def)


text \<open>A string of ASCII bytes is written to JSON as it is.\<close>

lemma byte_ascii: "byte c < 0x80 \<longleftrightarrow> \<not> digit7 c"
  by (cases c) (simp add: byte_def)

lemma utf8_scan_ascii: "\<forall>c\<in>set s. \<not> digit7 c \<Longrightarrow> utf8_scan 0 s = s"
  by (induction s) (simp_all add: byte_ascii)

lemma utf8_coerce_ascii: "\<forall>c\<in>set s. \<not> digit7 c \<Longrightarrow> utf8_coerce s = s"
  by (simp add: utf8_coerce_def utf8_scan_ascii)

lemma utf8_coerce_pending: "utf8_coerce StatusPending = StatusPending"
  by (simp add: utf8_coerce_ascii)

lemma json_strings_job_a: "json_strings job_a = job_a"
  by (simp add: json_strings_def utf8_coerce_ascii job_a_def)


lemma json_strings_fields:
  "ID (json_strings job) = utf8_coerce (ID job)"
  "Status (json_strings job) = utf8_coerce (Status job)"
  "CreatedAt (json_strings job) = CreatedAt job"
  "UpdatedAt (json_strings job) = UpdatedAt job"
  by (simp_all add: json_strings_def)

lemma GetJob_unknown: "unknown now st jobID \<Longrightarrow> GetJob Up now jobID st = (Inr None, st)"
  by (auto simp: unknown_def GetJob_def redis_Get_def split: option.splits)

lemma GetJob_expired:
  "strs st (jobKey jobID) = Some (v, expiry) \<Longrightarrow> expiry \<le> now \<Longrightarrow>
   GetJob Up now jobID st = (Inr None, st)"
  by (simp add: GetJob_def redis_Get_def)

lemma GetJob_live:
  "strs st (jobKey jobID) = Some (Marshal job, expiry) \<Longrightarrow> now < expiry \<Longrightarrow>
   GetJob Up now jobID st = (Inr (Some job), st)"
  by (simp add: GetJob_def redis_Get_def)

lemma GetJob_store: "snd (GetJob l now jobID st) = st"
  by (simp add: GetJob_def redis_Get_def split: option.splits prod.splits sum.splits bytes.splits)

lemma GetJob_storeD: "GetJob l now jobID st = (r, st1) \<Longrightarrow> st1 = st"
  using GetJob_store [of l now jobID st] by simp

lemma GetJob_strs_cong:
  "strs st1 = strs st \<Longrightarrow> fst (GetJob l now jobID st1) = fst (GetJob l now jobID st)"
  by (simp add: GetJob_def redis_Get_def split: option.splits prod.splits sum.splits bytes.splits)



lemma AddJob_strs:
  "AddJob Up l2 T job0 st = (e, job, st1) \<Longrightarrow>
   strs st1 (jobKey (ID job)) = Some (Marshal (json_strings job), T + TTL)"
  by (auto simp: AddJob_def Let_def json_Marshal_def redis_Set_def redis_LPush_def
      split: if_splits)

lemma UpdateJob_strs:
  "strs (snd (snd (UpdateJob Up t job st))) =
   (strs st)(jobKey (ID job) \<mapsto> (Marshal (json_strings (job\<lparr>UpdatedAt := t\<rparr>)), t + TTL))"
  by (simp add: UpdateJob_def Let_def json_Marshal_def redis_Set_def)

lemma run_updates_last:
  "strs st (jobKey jobID) = Some (Marshal (json_strings job), W + TTL) \<Longrightarrow>
   strs (run_updates us st) (jobKey jobID) =
     Some (Marshal (json_strings (last_job jobID job us)), last_write jobID W us + TTL)"
proof (induction us arbitrary: st job W)
  case Nil
  then show ?case by simp
next
  case (Cons u us)
  obtain t j where u: "u = (t, j)" by (cases u)
  show ?case
  proof (cases "ID j = jobID")
    case True
    have "strs (snd (snd (UpdateJob Up t j st))) (jobKey jobID)
          = Some (Marshal (json_strings (j\<lparr>UpdatedAt := t\<rparr>)), t + TTL)"
      using True by (simp add: UpdateJob_strs)
    from Cons.IH [OF this] show ?thesis
      using True u by simp
  next
    case False
    have "strs (snd (snd (UpdateJob Up t j st))) (jobKey jobID)
          = Some (Marshal (json_strings job), W + TTL)"
      using False Cons.prems by (simp add: UpdateJob_strs jobKey_inj)
    from Cons.IH [OF this] show ?thesis
      using False u by simp
  qed
qed

lemma store_a_reached: "AddJob Up Up 0 job_a redis_empty = (None, job_a, store_a)"
proof -
  have "AddJob Up Up 0 job_a redis_empty =
        (None, job_a, \<lparr>strs = [jobKey (ID job_a) \<mapsto> (Marshal (json_strings job_a), TTL)],
                       lsts = [queueKey \<mapsto> [ID job_a]]\<rparr>)"
    by (simp add: AddJob_def Let_def json_Marshal_def redis_Set_def redis_LPush_def job_a_def
        redis_empty_def list_at_def)
  then show ?thesis
    by (simp add: json_strings_job_a store_a_def) (simp add: job_a_def)
qed

section \<open>Expiry of job records\<close>

text \<open>
  C1 (as the code has it). Every write of a record, by \<^verbatim>\<open>AddJob\<close> or by
  \<^verbatim>\<open>UpdateJob\<close>, stores it with a new time to live of 24 hours. So for a record
  created at \<open>T\<close> and then updated any number of times, with \<open>W\<close> the instant of the
  last of these writes: at every instant before \<open>W\<close> + 24 hours \<^verbatim>\<open>GetJob\<close> returns
  the job as it was last written, and at every instant from \<open>W\<close> + 24 hours on the
  record is unretrievable, whatever its status: \<^verbatim>\<open>GetJob\<close> reports no job and no
  error, and \<^verbatim>\<open>GetResult\<close> answers 404. With no update the last write is the
  creation, and the record is gone from \<open>T\<close> + 24 hours on.
\<close>

theorem ttl_from_last_write:
  assumes "AddJob Up l2 T job0 st = (e, job, st1)"
  shows "GetJob Up now (ID job) (run_updates us st1) =
           (if now < last_write (ID job) T us + TTL
            then Inr (Some (json_strings (last_job (ID job) job us)))
            else Inr None,
            run_updates us st1) \<and>
         (ID job \<noteq> '''' \<and> last_write (ID job) T us + TTL \<le> now \<longrightarrow>
            GetResult Up now fs (ID job) (run_updates us st1) =
              (JSON StatusNotFound [''error'' \<mapsto> S ''Job not found''], run_updates us st1))"
proof -
  from run_updates_last [OF AddJob_strs [OF assms]]
  have s: "strs (run_updates us st1) (jobKey (ID job)) =
      Some (Marshal (json_strings (last_job (ID job) job us)), last_write (ID job) T us + TTL)" .
  have g: "GetJob Up now (ID job) (run_updates us st1) =
           (if now < last_write (ID job) T us + TTL
            then Inr (Some (json_strings (last_job (ID job) job us)))
            else Inr None,
            run_updates us st1)"
    using s by (simp add: GetJob_def redis_Get_def)
  then show ?thesis by (simp add: GetResult_def)
qed

theorem ttl_from_last_write_witness:
  "AddJob Up Up 0 job_a redis_empty = (None, job_a, store_a) \<and>
   last_write (ID job_a) 0 [(23 * Hour, job_a\<lparr>Status := StatusProcessing\<rparr>)] = 23 * Hour \<and>
   last_job (ID job_a) job_a [(23 * Hour, job_a\<lparr>Status := StatusProcessing\<rparr>)] =
     job_a\<lparr>Status := StatusProcessing, UpdatedAt := 23 * Hour\<rparr> \<and>
   GetJob Up (46 * Hour) (ID job_a)
     (run_updates [(23 * Hour, job_a\<lparr>Status := StatusProcessing\<rparr>)] store_a) =
   (Inr (Some (job_a\<lparr>Status := StatusProcessing, UpdatedAt := 23 * Hour\<rparr>)),
    run_updates [(23 * Hour, job_a\<lparr>Status := StatusProcessing\<rparr>)] store_a) \<and>
   GetJob Up (47 * Hour) (ID job_a)
     (run_updates [(23 * Hour, job_a\<lparr>Status := StatusProcessing\<rparr>)] store_a) =
   (Inr None, run_updates [(23 * Hour, job_a\<lparr>Status := StatusProcessing\<rparr>)] store_a) \<and>
   GetResult Up (47 * Hour) {} (ID job_a)
     (run_updates [(23 * Hour, job_a\<lparr>Status := StatusProcessing\<rparr>)] store_a) =
   (JSON StatusNotFound [''error'' \<mapsto> S ''Job not found''],
    run_updates [(23 * Hour, job_a\<lparr>Status := StatusProcessing\<rparr>)] store_a) \<and>
   GetJob Up (24 * Hour) (ID job_a) (run_updates [] store_a) = (Inr None, run_updates [] store_a)"
proof -
  let ?us = "[(23 * Hour, job_a\<lparr>Status := StatusProcessing\<rparr>)]"
  have w: "last_write (ID job_a) 0 ?us = 23 * Hour" by simp
  have j: "last_job (ID job_a) job_a ?us =
           job_a\<lparr>Status := StatusProcessing, UpdatedAt := 23 * Hour\<rparr>" by simp
  have c: "json_strings (job_a\<lparr>Status := StatusProcessing, UpdatedAt := 23 * Hour\<rparr>) =
           job_a\<lparr>Status := StatusProcessing, UpdatedAt := 23 * Hour\<rparr>"
    by (simp add: json_strings_def utf8_coerce_ascii job_a_def)
  have n: "ID job_a \<noteq> ''''" by (simp add: job_a_def)
  note t = ttl_from_last_write [OF store_a_reached, where us = ?us and fs = "{}"]
  have 1: "GetJob Up (46 * Hour) (ID job_a) (run_updates ?us store_a) =
           (Inr (Some (job_a\<lparr>Status := StatusProcessing, UpdatedAt := 23 * Hour\<rparr>)),
            run_updates ?us store_a)"
    using t [of "46 * Hour"] unfolding w j c by simp
  have 2: "GetJob Up (47 * Hour) (ID job_a) (run_updates ?us store_a) =
           (Inr None, run_updates ?us store_a)"
    using t [of "47 * Hour"] unfolding w j c by simp
  have 3: "GetResult Up (47 * Hour) {} (ID job_a) (run_updates ?us store_a) =
           (JSON StatusNotFound [''error'' \<mapsto> S ''Job not found''], run_updates ?us store_a)"
    using t [of "47 * Hour"] n unfolding w j c by simp
  have 4: "GetJob Up (24 * Hour) (ID job_a) (run_updates [] store_a) =
           (Inr None, run_updates [] store_a)"
    using ttl_from_last_write [OF store_a_reached, where us = "[]" and now = "24 * Hour"]
    by simp
  from store_a_reached w j 1 2 3 4 show ?thesis by blast
qed

text \<open>
  The claim as written (24 hours from creation, however many updates) fails: a job
  created at instant 0 and updated 23 hours later is still retrievable 24 hours after
  its creation.
\<close>

theorem ttl_fixed_from_creation_counterexample:
  "AddJob Up Up 0 job_a redis_empty = (None, job_a, store_a) \<and>
   fst (GetJob Up (0 + TTL) (ID job_a)
          (snd (snd (UpdateJob Up (23 * Hour) (job_a\<lparr>Status := StatusProcessing\<rparr>) store_a))))
     = Inr (Some (job_a\<lparr>Status := StatusProcessing, UpdatedAt := 23 * Hour\<rparr>))"
proof -
  have c: "json_strings (job_a\<lparr>Status := StatusProcessing, UpdatedAt := 23 * Hour\<rparr>) =
           job_a\<lparr>Status := StatusProcessing, UpdatedAt := 23 * Hour\<rparr>"
    by (simp add: json_strings_def utf8_coerce_ascii job_a_def)
  have "fst (GetJob Up (0 + TTL) (ID job_a)
          (snd (snd (UpdateJob Up (23 * Hour) (job_a\<lparr>Status := StatusProcessing\<rparr>) store_a))))
     = Inr (Some (json_strings (job_a\<lparr>Status := StatusProcessing, UpdatedAt := 23 * Hour\<rparr>)))"
    by (simp add: GetJob_def redis_Get_def UpdateJob_strs)
  with c store_a_reached show ?thesis by simp
qed

lemma RPop_empty: "fifo st = [] \<Longrightarrow> redis_RPop Up queueKey st = (Inl RedisNil, st)"
  by (simp add: redis_RPop_def fifo_def pending_def)

lemma RPop_head:
  assumes "fifo st = x # rest"
  shows "\<exists>st1. redis_RPop Up queueKey st = (Inr x, st1) \<and> fifo st1 = rest \<and> strs st1 = strs st"
proof -
  from assms have p: "list_at st queueKey = rev rest @ [x]"
    by (simp add: fifo_def pending_def rev_swap)
  then show ?thesis
    by (auto simp: redis_RPop_def fifo_def pending_def list_at_def)
qed

lemma AddJob_fifo:
  "AddJob l1 l2 now job0 st = (None, job, st1) \<Longrightarrow> Status job = StatusPending \<Longrightarrow>
   fifo st1 = fifo st @ [ID job]"
  by (auto simp: AddJob_def Let_def json_Marshal_def redis_Set_def redis_LPush_def fifo_def
      pending_def list_at_def split: if_splits)

section \<open>The pending queue\<close>

text \<open>
  C2 (as the code has it). On an empty queue \<^verbatim>\<open>PopPendingJob\<close> returns no job and
  no error and leaves the store as it was. On a queue whose oldest ID is \<open>x\<close> it removes
  \<open>x\<close>, leaves the rest of the queue and every record as they were, and returns what
  \<^verbatim>\<open>GetJob\<close> reports for \<open>x\<close>: the record stored under \<open>x\<close>, or, when that record
  is unknown to the store (expired), no job and no error, as on an empty queue. A
  successful \<^verbatim>\<open>AddJob\<close> of a pending job puts its ID behind all the IDs queued
  before it.
\<close>

theorem pop_fifo:
  "(fifo st = [] \<longrightarrow> PopPendingJob Up l2 now st = (Inr None, st)) \<and>
   (fifo st = x # rest \<longrightarrow>
      fst (PopPendingJob Up l2 now st) = fst (GetJob l2 now x st) \<and>
      fifo (snd (PopPendingJob Up l2 now st)) = rest \<and>
      strs (snd (PopPendingJob Up l2 now st)) = strs st \<and>
      (unknown now st x \<longrightarrow> fst (PopPendingJob Up Up now st) = Inr None)) \<and>
   (AddJob l1 l3 now job0 st = (None, job, st1) \<and> Status job = StatusPending \<longrightarrow>
      fifo st1 = fifo st @ [ID job])"
proof (intro conjI impI)
  assume "fifo st = []"
  then show "PopPendingJob Up l2 now st = (Inr None, st)"
    by (simp add: PopPendingJob_def RPop_empty)
next
  assume h: "fifo st = x # rest"
  from RPop_head [OF h] obtain st1 where
    r: "redis_RPop Up queueKey st = (Inr x, st1)" and f: "fifo st1 = rest"
    and s: "strs st1 = strs st"
    by blast
  have p: "PopPendingJob Up l now st = GetJob l now x st1" for l
    by (simp add: PopPendingJob_def r)
  show "fst (PopPendingJob Up l2 now st) = fst (GetJob l2 now x st)"
    by (simp add: p GetJob_strs_cong [OF s])
  show "fifo (snd (PopPendingJob Up l2 now st)) = rest"
    by (simp add: p GetJob_store f)
  show "strs (snd (PopPendingJob Up l2 now st)) = strs st"
    by (simp add: p GetJob_store s)
  assume "unknown now st x"
  then show "fst (PopPendingJob Up Up now st) = Inr None"
    by (simp add: p GetJob_strs_cong [OF s] GetJob_unknown)
next
  assume "AddJob l1 l3 now job0 st = (None, job, st1) \<and> Status job = StatusPending"
  then show "fifo st1 = fifo st @ [ID job]" using AddJob_fifo by blast
qed

theorem pop_fifo_witness:
  "fifo redis_empty = [] \<and> PopPendingJob Up Up 0 redis_empty = (Inr None, redis_empty) \<and>
   AddJob Up Up 0 job_a redis_empty = (None, job_a, store_a) \<and>
   Status job_a = StatusPending \<and>
   fifo store_a = fifo redis_empty @ [ID job_a] \<and>
   fifo store_a = [''a1b2c3d4e5f60718''] \<and>
   fst (PopPendingJob Up Up 5 store_a) = Inr (Some job_a) \<and>
   fifo (snd (PopPendingJob Up Up 5 store_a)) = [] \<and>
   strs (snd (PopPendingJob Up Up 5 store_a)) = strs store_a \<and>
   unknown TTL store_a ''a1b2c3d4e5f60718'' \<and>
   fst (PopPendingJob Up Up TTL store_a) = Inr None"
proof -
  have e: "fifo redis_empty = []"
    by (simp add: fifo_def pending_def list_at_def redis_empty_def)
  have f: "fifo store_a = [''a1b2c3d4e5f60718'']"
    by (simp add: fifo_def pending_def list_at_def store_a_def)
  have p: "Status job_a = StatusPending"
    by (simp add: job_a_def)
  have g: "fst (GetJob Up 5 ''a1b2c3d4e5f60718'' store_a) = Inr (Some job_a)"
    by (simp add: GetJob_def redis_Get_def store_a_def)
  have u: "unknown TTL store_a ''a1b2c3d4e5f60718''"
    by (simp add: unknown_def store_a_def)
  note w1 = pop_fifo [of redis_empty Up 0 "''a1b2c3d4e5f60718''" "[]" Up Up job_a job_a store_a]
  note w2 = pop_fifo [of store_a Up 5 "''a1b2c3d4e5f60718''" "[]" Up Up job_a job_a store_a]
  note w3 = pop_fifo [of store_a Up TTL "''a1b2c3d4e5f60718''" "[]" Up Up job_a job_a store_a]
  have 1: "PopPendingJob Up Up 0 redis_empty = (Inr None, redis_empty)"
    using w1 e by blast
  have 2: "fifo store_a = fifo redis_empty @ [ID job_a]"
    using w1 store_a_reached p by blast
  have 3: "fst (PopPendingJob Up Up 5 store_a) = Inr (Some job_a) \<and>
           fifo (snd (PopPendingJob Up Up 5 store_a)) = [] \<and>
           strs (snd (PopPendingJob Up Up 5 store_a)) = strs store_a"
    using w2 f g by simp
  have 4: "fst (PopPendingJob Up Up TTL store_a) = Inr None"
    using w3 f u by blast
  from e 1 store_a_reached p 2 f 3 u 4 show ?thesis by blast
qed

text \<open>
  The claim as written (the head ID is returned whenever the queue is not empty) fails:
  24 hours after the job was added its ID is still the head of the queue, and
  \<^verbatim>\<open>PopPendingJob\<close> removes it and returns no job and no error.
\<close>

theorem pop_returns_head_counterexample:
  "AddJob Up Up 0 job_a redis_empty = (None, job_a, store_a) \<and>
   fifo store_a = [''a1b2c3d4e5f60718''] \<and>
   fst (PopPendingJob Up Up TTL store_a) = Inr None \<and>
   fifo (snd (PopPendingJob Up Up TTL store_a)) = []"
  by (simp add: store_a_reached)
     (simp add: PopPendingJob_def redis_RPop_def GetJob_def redis_Get_def store_a_def fifo_def
      pending_def list_at_def jobKey_def queueKey_def)

lemma store_failed_reached:
  "UpdateJob Up 9 (job_a\<lparr>Status := StatusFailed, Error := ''decode error''\<rparr>)
     (snd (PopPendingJob Up Up 5 store_a)) = (None, job_failed, store_failed)"
  by (simp add: UpdateJob_def Let_def json_Marshal_def redis_Set_def PopPendingJob_def
      redis_RPop_def GetJob_def redis_Get_def store_a_def list_at_def jobKey_def queueKey_def
      job_failed_def store_failed_def job_a_def json_strings_def utf8_coerce_ascii)

lemma store_done_reached:
  "UpdateJob Up 9 (job_a\<lparr>Status := StatusCompleted,
        OutputPath := ''results/a1b2c3d4e5f60718.png''\<rparr>)
     (snd (PopPendingJob Up Up 5 store_a)) = (None, job_done, store_done)"
  by (simp add: UpdateJob_def Let_def json_Marshal_def redis_Set_def PopPendingJob_def
      redis_RPop_def GetJob_def redis_Get_def store_a_def list_at_def jobKey_def queueKey_def
      job_done_def store_done_def job_a_def json_strings_def utf8_coerce_ascii)

section \<open>The status reader\<close>

text \<open>
  C9. \<^verbatim>\<open>GetJob\<close> and \<^verbatim>\<open>GetResult\<close> hand the store back exactly as they found it,
  on every path: every record with its expiry instant, and every list, the pending queue
  among them.
\<close>

theorem query_read_only:
  "snd (GetJob l now jobID st) = st \<and> snd (GetResult l now fs jobID st) = st"
  by (auto simp: GetResult_def GetJob_store Let_def split: prod.splits sum.splits option.splits
      dest: GetJob_storeD)

text \<open>
  C6. For a job ID (a non-empty string) that is unknown to the store, with the store
  answering, \<^verbatim>\<open>GetJob\<close> yields no job and no error and \<^verbatim>\<open>GetResult\<close> answers 404
  with the error \<open>Job not found\<close>. For a submitted job that is still pending the answer
  is 200 with the job's ID and the status \<open>pending\<close>, so the two answers differ.
\<close>

theorem not_found_distinct:
  assumes "unknown now st jobID" and "jobID \<noteq> ''''"
    and "GetJob Up now jobID st' = (Inr (Some job), st')" and "Status job = StatusPending"
  shows "GetJob Up now jobID st = (Inr None, st) \<and>
         GetResult Up now fs jobID st =
           (JSON StatusNotFound [''error'' \<mapsto> S ''Job not found''], st) \<and>
         GetResult Up now fs jobID st' =
           (JSON StatusOK [''job_id'' \<mapsto> S (ID job), ''status'' \<mapsto> S StatusPending], st') \<and>
         fst (GetResult Up now fs jobID st) \<noteq> fst (GetResult Up now fs jobID st')"
  using assms by (simp add: GetResult_def GetJob_unknown)

theorem not_found_distinct_witness:
  "unknown 5 redis_empty ''a1b2c3d4e5f60718'' \<and> unknown TTL store_a ''a1b2c3d4e5f60718'' \<and>
   ''a1b2c3d4e5f60718'' \<noteq> '''' \<and>
   GetJob Up 5 ''a1b2c3d4e5f60718'' store_a = (Inr (Some job_a), store_a) \<and>
   Status job_a = StatusPending \<and>
   GetJob Up 5 ''a1b2c3d4e5f60718'' redis_empty = (Inr None, redis_empty) \<and>
   GetResult Up 5 {} ''a1b2c3d4e5f60718'' redis_empty =
     (JSON StatusNotFound [''error'' \<mapsto> S ''Job not found''], redis_empty) \<and>
   GetResult Up 5 {} ''a1b2c3d4e5f60718'' store_a =
     (JSON StatusOK [''job_id'' \<mapsto> S ''a1b2c3d4e5f60718'', ''status'' \<mapsto> S ''pending''], store_a) \<and>
   GetResult Up TTL {} ''a1b2c3d4e5f60718'' store_a =
     (JSON StatusNotFound [''error'' \<mapsto> S ''Job not found''], store_a)"
proof -
  have u: "unknown 5 redis_empty ''a1b2c3d4e5f60718''"
    by (simp add: unknown_def redis_empty_def)
  have u2: "unknown TTL store_a ''a1b2c3d4e5f60718''"
    by (simp add: unknown_def store_a_def)
  have n: "''a1b2c3d4e5f60718'' \<noteq> ''''" by simp
  have g: "GetJob Up 5 ''a1b2c3d4e5f60718'' store_a = (Inr (Some job_a), store_a)"
    by (simp add: GetJob_def redis_Get_def store_a_def)
  have s: "Status job_a = StatusPending" by (simp add: job_a_def)
  have g2: "GetJob Up TTL ''a1b2c3d4e5f60718'' store_a = (Inr (Some job_a), store_a) \<Longrightarrow> False"
    by (simp add: GetJob_def redis_Get_def store_a_def)
  from not_found_distinct [OF u n g s, of "{}"] u u2 n g s
  have a: "unknown 5 redis_empty ''a1b2c3d4e5f60718'' \<and> unknown TTL store_a ''a1b2c3d4e5f60718'' \<and>
   ''a1b2c3d4e5f60718'' \<noteq> '''' \<and>
   GetJob Up 5 ''a1b2c3d4e5f60718'' store_a = (Inr (Some job_a), store_a) \<and>
   Status job_a = StatusPending \<and>
   GetJob Up 5 ''a1b2c3d4e5f60718'' redis_empty = (Inr None, redis_empty) \<and>
   GetResult Up 5 {} ''a1b2c3d4e5f60718'' redis_empty =
     (JSON StatusNotFound [''error'' \<mapsto> S ''Job not found''], redis_empty) \<and>
   GetResult Up 5 {} ''a1b2c3d4e5f60718'' store_a =
     (JSON StatusOK [''job_id'' \<mapsto> S ''a1b2c3d4e5f60718'', ''status'' \<mapsto> S ''pending''], store_a)"
    by (simp add: job_a_def)
  have b: "GetResult Up TTL {} ''a1b2c3d4e5f60718'' store_a =
     (JSON StatusNotFound [''error'' \<mapsto> S ''Job not found''], store_a)"
    using u2 n by (simp add: GetResult_def GetJob_unknown)
  from a b show ?thesis by simp
qed


text \<open>
  C7. For a job whose record has the status \<open>failed\<close>, \<^verbatim>\<open>GetResult\<close> answers 200
  and the \<open>error\<close> field of the answer is the error text of the record, unchanged.
\<close>

theorem failed_error_verbatim:
  assumes "GetJob l now jobID st = (Inr (Some job), st1)" and "Status job = StatusFailed"
    and "jobID \<noteq> ''''"
  shows "GetResult l now fs jobID st =
     (JSON StatusOK [''job_id'' \<mapsto> S (ID job), ''status'' \<mapsto> S StatusFailed,
                     ''error'' \<mapsto> S (Error job)], st1)"
  using assms by (simp add: GetResult_def)

theorem failed_error_verbatim_witness:
  "GetJob Up 10 ''a1b2c3d4e5f60718'' store_failed = (Inr (Some job_failed), store_failed) \<and>
   Status job_failed = StatusFailed \<and> ''a1b2c3d4e5f60718'' \<noteq> '''' \<and>
   GetResult Up 10 {} ''a1b2c3d4e5f60718'' store_failed =
     (JSON StatusOK [''job_id'' \<mapsto> S ''a1b2c3d4e5f60718'', ''status'' \<mapsto> S ''failed'',
                     ''error'' \<mapsto> S ''decode error''], store_failed)"
proof -
  have g: "GetJob Up 10 ''a1b2c3d4e5f60718'' store_failed = (Inr (Some job_failed), store_failed)"
    by (simp add: GetJob_def redis_Get_def store_failed_def)
  have s: "Status job_failed = StatusFailed" by (simp add: job_failed_def)
  have n: "''a1b2c3d4e5f60718'' \<noteq> ''''" by simp
  from failed_error_verbatim [OF g s n, of "{}"] g s
  show ?thesis by (simp add: job_failed_def job_a_def)
qed

text \<open>
  C10. For a job whose record has the status \<open>completed\<close>, \<^verbatim>\<open>GetResult\<close> answers
  200 with the status \<open>completed\<close>. When no file exists at the record's output path the
  answer carries the error \<open>Result file not found\<close> and neither a result URL nor a
  completion time; the result URL and the completion time are in the answer only when
  the file exists.
\<close>

theorem completed_file_missing:
  assumes "GetJob l now jobID st = (Inr (Some job), st1)" and "Status job = StatusCompleted"
    and "jobID \<noteq> ''''"
  shows "GetResult l now fs jobID st =
     (if OutputPath job \<in> fs
      then JSON StatusOK [''job_id'' \<mapsto> S (ID job), ''status'' \<mapsto> S StatusCompleted,
             ''result_url'' \<mapsto> S (''/api/download/'' @ ID job),
             ''completed_at'' \<mapsto> RFC3339 (UpdatedAt job)]
      else JSON StatusOK [''job_id'' \<mapsto> S (ID job), ''status'' \<mapsto> S StatusCompleted,
             ''error'' \<mapsto> S ''Result file not found''], st1)"
  using assms by (simp add: GetResult_def os_Stat_def)

theorem completed_file_missing_witness:
  "GetJob Up 10 ''a1b2c3d4e5f60718'' store_done = (Inr (Some job_done), store_done) \<and>
   Status job_done = StatusCompleted \<and> ''a1b2c3d4e5f60718'' \<noteq> '''' \<and>
   GetResult Up 10 {} ''a1b2c3d4e5f60718'' store_done =
     (JSON StatusOK [''job_id'' \<mapsto> S ''a1b2c3d4e5f60718'', ''status'' \<mapsto> S ''completed'',
                     ''error'' \<mapsto> S ''Result file not found''], store_done) \<and>
   GetResult Up 10 {''results/a1b2c3d4e5f60718.png''} ''a1b2c3d4e5f60718'' store_done =
     (JSON StatusOK [''job_id'' \<mapsto> S ''a1b2c3d4e5f60718'', ''status'' \<mapsto> S ''completed'',
                     ''result_url'' \<mapsto> S ''/api/download/a1b2c3d4e5f60718'',
                     ''completed_at'' \<mapsto> RFC3339 9], store_done)"
proof -
  have g: "GetJob Up 10 ''a1b2c3d4e5f60718'' store_done = (Inr (Some job_done), store_done)"
    by (simp add: GetJob_def redis_Get_def store_done_def)
  have s: "Status job_done = StatusCompleted" by (simp add: job_done_def)
  have n: "''a1b2c3d4e5f60718'' \<noteq> ''''" by simp
  from completed_file_missing [OF g s n, of "{}"]
       completed_file_missing [OF g s n, of "{''results/a1b2c3d4e5f60718.png''}"] g s
  show ?thesis by (simp add: job_done_def job_a_def)
qed

section \<open>Submitting a job\<close>

text \<open>The text \<^verbatim>\<open>hex.EncodeToString\<close> writes determines the bytes, and is ASCII.\<close>

lemma nibbles_eq:
  fixes v w :: "8 word"
  assumes "drop_bit 4 v = drop_bit 4 w" and "and v 0x0f = and w 0x0f"
  shows "v = w"
proof (rule bit_eqI)
  fix n
  have m: "(0x0f :: 8 word) = mask 4" by (simp add: mask_eq_exp_minus_1)
  show "bit v n \<longleftrightarrow> bit w n"
  proof (cases "n < 4")
    case True
    from assms(2) have "bit (and v (mask 4)) n = bit (and w (mask 4)) n" by (simp add: m)
    with True show ?thesis by (simp add: bit_and_iff bit_mask_iff)
  next
    case False
    then obtain k where k: "n = 4 + k" by (metis le_add_diff_inverse not_less)
    from assms(1) have "bit (drop_bit 4 v) k = bit (drop_bit 4 w) k" by simp
    with k show ?thesis by (simp add: bit_drop_bit_eq)
  qed
qed

lemma hi_lt: "unat (drop_bit 4 (v :: 8 word)) < 16"
proof -
  have "unat v < 2 ^ LENGTH(8)" by (rule unsigned_less)
  then have b: "unat v < 256" by simp
  have "unat (drop_bit 4 v) = drop_bit 4 (unat v)" by (rule unat_drop_bit_eq)
  also have "\<dots> = unat v div 16" by (simp add: drop_bit_eq_div)
  finally show ?thesis using b by simp
qed

lemma lo_lt: "unat (and (v :: 8 word) 0x0f) < 16"
proof -
  have "and v 0x0f \<le> 0x0f" by (rule word_and_le1)
  then have "unat (and v 0x0f) \<le> unat (0x0f :: 8 word)" by (simp add: word_le_nat_alt)
  then show ?thesis by simp
qed

lemma hextable_nth_inj:
  "i < 16 \<Longrightarrow> j < 16 \<Longrightarrow> hextable ! i = hextable ! j \<Longrightarrow> i = j"
proof -
  assume a: "i < 16" "j < 16" "hextable ! i = hextable ! j"
  have d: "distinct hextable" and l: "length hextable = 16" by (simp_all add: hextable_def)
  from a l have "i < length hextable" "j < length hextable" by simp_all
  with d a(3) show ?thesis by (simp add: nth_eq_iff_index_eq)
qed

lemma hextable_nth_ascii: "i < 16 \<Longrightarrow> \<not> digit7 (hextable ! i)"
proof -
  assume i: "i < 16"
  have "list_all (\<lambda>c. \<not> digit7 c) hextable" by (simp add: hextable_def)
  moreover have "length hextable = 16" by (simp add: hextable_def)
  ultimately show ?thesis using i by (simp add: list_all_length)
qed

lemma hex_EncodeToString_inj:
  "hex_EncodeToString a = hex_EncodeToString b \<Longrightarrow> a = b"
proof (induction a arbitrary: b)
  case Nil
  then show ?case by (cases b) simp_all
next
  case (Cons v a)
  then obtain w b' where b: "b = w # b'" by (cases b) auto
  from Cons.prems b have
    h: "hextable ! unat (drop_bit 4 v) = hextable ! unat (drop_bit 4 w)"
    and l: "hextable ! unat (and v 0x0f) = hextable ! unat (and w 0x0f)"
    and r: "hex_EncodeToString a = hex_EncodeToString b'"
    by simp_all
  from h have "unat (drop_bit 4 v) = unat (drop_bit 4 w)"
    by (rule hextable_nth_inj [OF hi_lt hi_lt])
  then have 1: "drop_bit 4 v = drop_bit 4 w" by (rule unsigned_word_eqI)
  from l have "unat (and v 0x0f) = unat (and w 0x0f)"
    by (rule hextable_nth_inj [OF lo_lt lo_lt])
  then have 2: "and v 0x0f = and w 0x0f" by (rule unsigned_word_eqI)
  from nibbles_eq [OF 1 2] Cons.IH [OF r] b show ?case by simp
qed

lemma hex_EncodeToString_ascii: "\<forall>c\<in>set (hex_EncodeToString b). \<not> digit7 c"
  by (induction b) (simp_all add: hextable_nth_ascii hi_lt lo_lt)

lemma hex_EncodeToString_length: "length (hex_EncodeToString b) = 2 * length b"
  by (induction b) simp_all

lemma generateID_inj: "generateID r = Inr x \<Longrightarrow> generateID r' = Inr x \<Longrightarrow> r = r'"
  by (auto simp: generateID_def split: sum.splits dest: hex_EncodeToString_inj)


lemma generateID_a: "generateID (Inr rnd_a) = Inr ''a1b2c3d4e5f60718''"
  by (simp add: generateID_def rnd_a_def hextable_def drop_bit_eq_div)

lemma AddJob_ok:
  assumes "AddJob l1 l2 now job0 st = (None, job, st1)" and "Status job0 = StatusPending"
  shows "job = job0\<lparr>CreatedAt := now, UpdatedAt := now\<rparr> \<and>
         strs st1 = (strs st)(jobKey (ID job0) \<mapsto> (Marshal (json_strings job), now + TTL)) \<and>
         fifo st1 = fifo st @ [ID job0]"
  using assms
  by (auto simp: AddJob_def Let_def json_Marshal_def redis_Set_def redis_LPush_def fifo_def
      pending_def list_at_def split: if_splits)

lemma ProcessImage_a:
  "ProcessImage handler_a (Some ''cat.png'') (Inr rnd_a) True Up Up 0 {} redis_empty =
   (JSON StatusAccepted [''job_id'' \<mapsto> S ''a1b2c3d4e5f60718'', ''status'' \<mapsto> S ''pending''],
    {''uploads/a1b2c3d4e5f60718.png''}, store_a)"
proof -
  have e: "filepath_Ext ''cat.png'' = ''.png''"
    by (simp add: filepath_Ext_def)
  have p: "filepath_Join ''uploads'' ''a1b2c3d4e5f60718.png'' = ''uploads/a1b2c3d4e5f60718.png''"
    by (simp add: filepath_Join_def filepath_Clean_def at_elem_end_def Let_def)
  have j: "\<lparr>ID = ''a1b2c3d4e5f60718'', Status = StatusPending,
            InputPath = ''uploads/a1b2c3d4e5f60718.png'', OutputPath = [], Error = [],
            CreatedAt = 0, UpdatedAt = 0\<rparr> = job_a"
    by (simp add: job_a_def)
  show ?thesis
    by (simp add: ProcessImage_def generateID_a Let_def e handler_a_def p SaveUploadedFile_def j
        store_a_reached) (simp add: job_a_def)
qed

text \<open>
  C4. When \<^verbatim>\<open>ProcessImage\<close> succeeds (it answers 202), the job ID is the one
  \<^verbatim>\<open>generateID\<close> made for this request: the hexadecimal text of the random bytes it
  read, which no other outcome of the random source gives, so the ID is as fresh as the
  random bytes are. The answer carries this ID and the status \<open>pending\<close>; the store
  holds under the ID a record with this ID, the status \<open>pending\<close> and \<open>created_at\<close>
  equal to \<open>updated_at\<close> (the instant of the call), which \<^verbatim>\<open>GetJob\<close> returns; no
  other record is touched; and the ID stands behind all the IDs that were queued before
  it.
\<close>

theorem submit_ok:
  assumes "ProcessImage h upload rnd save_ok l1 l2 now fs st = (JSON StatusAccepted body, fs1, st1)"
  shows "\<exists>b jobID job.
           rnd = Inr b \<and> jobID = hex_EncodeToString b \<and> length jobID = 2 * length b \<and>
           generateID rnd = Inr jobID \<and>
           (\<forall>rnd'. generateID rnd' = Inr jobID \<longrightarrow> rnd' = rnd) \<and>
           body = [''job_id'' \<mapsto> S jobID, ''status'' \<mapsto> S ''pending''] \<and>
           strs st1 (jobKey jobID) = Some (Marshal job, now + TTL) \<and>
           (\<forall>k. k \<noteq> jobKey jobID \<longrightarrow> strs st1 k = strs st k) \<and>
           ID job = jobID \<and> Status job = StatusPending \<and>
           CreatedAt job = UpdatedAt job \<and> CreatedAt job = now \<and>
           fifo st1 = fifo st @ [jobID] \<and>
           GetJob Up now jobID st1 = (Inr (Some job), st1)"
proof -
  from assms obtain file_Filename jobID where
    u: "upload = Some file_Filename" and g: "generateID rnd = Inr jobID"
    by (auto simp: ProcessImage_def split: option.splits sum.splits)
  from g obtain b where b: "rnd = Inr b" and h: "jobID = hex_EncodeToString b"
    by (auto simp: generateID_def split: sum.splits)
  have inj: "\<forall>rnd'. generateID rnd' = Inr jobID \<longrightarrow> rnd' = rnd"
    using g generateID_inj by blast
  have len: "length jobID = 2 * length b"
    by (simp add: h hex_EncodeToString_length)
  have c: "utf8_coerce jobID = jobID"
    unfolding h by (rule utf8_coerce_ascii [OF hex_EncodeToString_ascii])
  define uploadPath where
    "uploadPath = filepath_Join (uploadDir h) (jobID @ filepath_Ext file_Filename)"
  define job0 where "job0 = \<lparr>ID = jobID, Status = StatusPending, InputPath = uploadPath,
                                OutputPath = [], Error = [], CreatedAt = 0, UpdatedAt = 0\<rparr>"
  from assms u g obtain job1 where
    a: "AddJob l1 l2 now job0 st = (None, job1, st1)"
    and bd: "body = [''job_id'' \<mapsto> S jobID, ''status'' \<mapsto> S (Status job1)]"
    by (auto simp: ProcessImage_def Let_def uploadPath_def job0_def SaveUploadedFile_def
        split: if_splits prod.splits option.splits)
  have s0: "Status job0 = StatusPending" and i0: "ID job0 = jobID" by (simp_all add: job0_def)
  from AddJob_ok [OF a s0] have
    j: "job1 = job0\<lparr>CreatedAt := now, UpdatedAt := now\<rparr>"
    and s: "strs st1 = (strs st)(jobKey (ID job0) \<mapsto> (Marshal (json_strings job1), now + TTL))"
    and f: "fifo st1 = fifo st @ [ID job0]"
    by blast+
  let ?job = "json_strings job1"
  have r: "strs st1 (jobKey jobID) = Some (Marshal ?job, now + TTL)"
    using s i0 by simp
  have o: "\<forall>k. k \<noteq> jobKey jobID \<longrightarrow> strs st1 k = strs st k"
    using s i0 by simp
  have q: "GetJob Up now jobID st1 = (Inr (Some ?job), st1)"
    by (rule GetJob_live [OF r]) simp
  have p: "ID ?job = jobID" "Status ?job = StatusPending" "CreatedAt ?job = now"
    "UpdatedAt ?job = now"
    using j s0 i0 c by (simp_all add: json_strings_fields utf8_coerce_pending)
  have bd': "body = [''job_id'' \<mapsto> S jobID, ''status'' \<mapsto> S ''pending'']"
    using bd j s0 by simp
  have "rnd = Inr b \<and> jobID = hex_EncodeToString b \<and> length jobID = 2 * length b \<and>
        generateID rnd = Inr jobID \<and>
        (\<forall>rnd'. generateID rnd' = Inr jobID \<longrightarrow> rnd' = rnd) \<and>
        body = [''job_id'' \<mapsto> S jobID, ''status'' \<mapsto> S ''pending''] \<and>
        strs st1 (jobKey jobID) = Some (Marshal ?job, now + TTL) \<and>
        (\<forall>k. k \<noteq> jobKey jobID \<longrightarrow> strs st1 k = strs st k) \<and>
        ID ?job = jobID \<and> Status ?job = StatusPending \<and>
        CreatedAt ?job = UpdatedAt ?job \<and> CreatedAt ?job = now \<and>
        fifo st1 = fifo st @ [jobID] \<and>
        GetJob Up now jobID st1 = (Inr (Some ?job), st1)"
    by (intro conjI b h len g inj bd' r o p q) (simp_all add: p f i0)
  then show ?thesis
    by (intro exI [of _ b] exI [of _ jobID] exI [of _ ?job])
qed

theorem submit_ok_witness:
  "ProcessImage handler_a (Some ''cat.png'') (Inr rnd_a) True Up Up 0 {} redis_empty =
     (JSON StatusAccepted [''job_id'' \<mapsto> S ''a1b2c3d4e5f60718'', ''status'' \<mapsto> S ''pending''],
      {''uploads/a1b2c3d4e5f60718.png''}, store_a) \<and>
   generateID (Inr rnd_a) = Inr ''a1b2c3d4e5f60718'' \<and>
   hex_EncodeToString rnd_a = ''a1b2c3d4e5f60718'' \<and>
   strs store_a (jobKey ''a1b2c3d4e5f60718'') = Some (Marshal job_a, 0 + TTL) \<and>
   ID job_a = ''a1b2c3d4e5f60718'' \<and> Status job_a = StatusPending \<and>
   CreatedAt job_a = UpdatedAt job_a \<and> CreatedAt job_a = 0 \<and>
   fifo store_a = fifo redis_empty @ [''a1b2c3d4e5f60718''] \<and>
   GetJob Up 0 ''a1b2c3d4e5f60718'' store_a = (Inr (Some job_a), store_a)"
proof -
  from submit_ok [OF ProcessImage_a] obtain b jobID job where
    b: "Inr rnd_a = (Inr b :: err + 8 word list)" and h: "jobID = hex_EncodeToString b"
    and g: "generateID (Inr rnd_a) = Inr jobID"
    and r: "strs store_a (jobKey jobID) = Some (Marshal job, 0 + TTL)"
    and j: "ID job = jobID" "Status job = StatusPending" "CreatedAt job = UpdatedAt job"
      "CreatedAt job = 0"
    and f: "fifo store_a = fifo redis_empty @ [jobID]"
    and q: "GetJob Up 0 jobID store_a = (Inr (Some job), store_a)"
    by blast
  from g have i: "jobID = ''a1b2c3d4e5f60718''" by (simp add: generateID_a)
  from b h i have x: "hex_EncodeToString rnd_a = ''a1b2c3d4e5f60718''" by simp
  have "strs store_a (jobKey ''a1b2c3d4e5f60718'') = Some (Marshal job_a, TTL)"
    by (simp add: store_a_def)
  with r i have "job = job_a" by simp
  with g x r j f q i ProcessImage_a show ?thesis by simp
qed

section \<open>Fetching the artifact\<close>

lemma serves_from_file_server: "serves_from (files \<union> dirs) (file_server files dirs)"
  by (auto simp: serves_from_def file_server_def)

text \<open>
  C8. For a job ID (a non-empty string) whose record the store read reports, and a file
  server that sends only files that exist and answers 404 for a path at which there is
  none: \<^verbatim>\<open>DownloadResult\<close> sends the artifact only when the record exists, its status
  is \<open>completed\<close> and the file at its output path is present; and when the record is
  missing, or its status is not \<open>completed\<close>, or there is no file at its output path,
  the answer is a 404. The handler answers 404 \<open>Result not available\<close> itself when the
  record is missing, not completed or without an output path, and hands every other
  output path to the file server. The store is left as the read left it.
\<close>

theorem download_result:
  assumes "jobID \<noteq> ''''" and "GetJob l now jobID st = (Inr r, st1)"
    and "serves_from fs c_File"
  shows "(\<forall>p. fst (DownloadResult c_File l now jobID st) = FileBody p \<longrightarrow>
            (\<exists>job. r = Some job \<and> Status job = StatusCompleted \<and> OutputPath job = p \<and> p \<in> fs)) \<and>
         ((case r of None \<Rightarrow> True
           | Some job \<Rightarrow> Status job \<noteq> StatusCompleted \<or> OutputPath job \<notin> fs) \<longrightarrow>
            code (fst (DownloadResult c_File l now jobID st)) = StatusNotFound) \<and>
         ((case r of None \<Rightarrow> True
           | Some job \<Rightarrow> Status job \<noteq> StatusCompleted \<or> OutputPath job = '''') \<longrightarrow>
            fst (DownloadResult c_File l now jobID st) =
              JSON StatusNotFound [''error'' \<mapsto> S ''Result not available'']) \<and>
         (\<forall>job. r = Some job \<and> Status job = StatusCompleted \<and> OutputPath job \<noteq> '''' \<longrightarrow>
            fst (DownloadResult c_File l now jobID st) = c_File (OutputPath job)) \<and>
         snd (DownloadResult c_File l now jobID st) = st1"
proof (cases r)
  case None
  with assms(1,2) show ?thesis by (simp add: DownloadResult_def)
next
  case (Some job)
  from assms(3) have
    f: "\<And>p q. c_File p = FileBody q \<Longrightarrow> q = p \<and> p \<in> fs"
    and n: "\<And>p. p \<notin> fs \<Longrightarrow> code (c_File p) = StatusNotFound"
    by (auto simp: serves_from_def)
  show ?thesis
  proof (cases "Status job \<noteq> StatusCompleted \<or> OutputPath job = ''''")
    case True
    with Some assms(1,2) have
      "DownloadResult c_File l now jobID st =
         (JSON StatusNotFound [''error'' \<mapsto> S ''Result not available''], st1)"
      by (auto simp: DownloadResult_def)
    with Some True show ?thesis by auto
  next
    case False
    with Some assms(1,2) have
      d: "DownloadResult c_File l now jobID st = (c_File (OutputPath job), st1)"
      by (simp add: DownloadResult_def)
    from False Some d f n show ?thesis by auto
  qed
qed

theorem download_result_witness:
  "''a1b2c3d4e5f60718'' \<noteq> '''' \<and>
   serves_from ({''results/a1b2c3d4e5f60718.png''} \<union> {''results''})
     (file_server {''results/a1b2c3d4e5f60718.png''} {''results''}) \<and>
   serves_from ({} \<union> {''results''}) (file_server {} {''results''}) \<and>
   GetJob Up 10 ''a1b2c3d4e5f60718'' store_done = (Inr (Some job_done), store_done) \<and>
   GetJob Up 10 ''a1b2c3d4e5f60718'' store_failed = (Inr (Some job_failed), store_failed) \<and>
   GetJob Up 10 ''a1b2c3d4e5f60718'' redis_empty = (Inr None, redis_empty) \<and>
   DownloadResult (file_server {''results/a1b2c3d4e5f60718.png''} {''results''}) Up 10
       ''a1b2c3d4e5f60718'' store_done =
     (FileBody ''results/a1b2c3d4e5f60718.png'', store_done) \<and>
   code (fst (DownloadResult (file_server {} {''results''}) Up 10
       ''a1b2c3d4e5f60718'' store_done)) = StatusNotFound \<and>
   DownloadResult (file_server {''results/a1b2c3d4e5f60718.png''} {''results''}) Up 10
       ''a1b2c3d4e5f60718'' store_failed =
     (JSON StatusNotFound [''error'' \<mapsto> S ''Result not available''], store_failed) \<and>
   DownloadResult (file_server {''results/a1b2c3d4e5f60718.png''} {''results''}) Up 10
       ''a1b2c3d4e5f60718'' redis_empty =
     (JSON StatusNotFound [''error'' \<mapsto> S ''Result not available''], redis_empty)"
proof -
  let ?png = "''results/a1b2c3d4e5f60718.png''"
  let ?id = "''a1b2c3d4e5f60718''"
  have n: "?id \<noteq> ''''" by simp
  have d: "GetJob Up 10 ?id store_done = (Inr (Some job_done), store_done)"
    by (simp add: GetJob_def redis_Get_def store_done_def)
  have f: "GetJob Up 10 ?id store_failed = (Inr (Some job_failed), store_failed)"
    by (simp add: GetJob_def redis_Get_def store_failed_def)
  have e: "GetJob Up 10 ?id redis_empty = (Inr None, redis_empty)"
    by (simp add: GetJob_def redis_Get_def redis_empty_def)
  note s1 = serves_from_file_server [of "{?png}" "{''results''}"]
  note s2 = serves_from_file_server [of "{}" "{''results''}"]
  have jd: "Status job_done = StatusCompleted" "OutputPath job_done = ?png"
    by (simp_all add: job_done_def)
  have jf: "Status job_failed \<noteq> StatusCompleted" by (simp add: job_failed_def job_a_def)
  have 1: "DownloadResult (file_server {?png} {''results''}) Up 10 ?id store_done =
           (FileBody ?png, store_done)"
    using download_result [OF n d s1] jd
    by (simp add: file_server_def prod_eq_iff)
  have 2: "code (fst (DownloadResult (file_server {} {''results''}) Up 10 ?id store_done))
           = StatusNotFound"
    using download_result [OF n d s2] jd by (simp add: file_server_def)
  have 3: "DownloadResult (file_server {?png} {''results''}) Up 10 ?id store_failed =
           (JSON StatusNotFound [''error'' \<mapsto> S ''Result not available''], store_failed)"
    using download_result [OF n f s1] jf by (simp add: prod_eq_iff)
  have 4: "DownloadResult (file_server {?png} {''results''}) Up 10 ?id redis_empty =
           (JSON StatusNotFound [''error'' \<mapsto> S ''Result not available''], redis_empty)"
    using download_result [OF n e s1] by (simp add: prod_eq_iff)
  from n s1 s2 d f e 1 2 3 4 show ?thesis by blast
qed

section \<open>What the pending queue holds\<close>




























section \<open>Exclusive delivery to concurrent workers\<close>




























end
